theory Spec2Isabelle
  imports Main "HOL-Library.Sublist" "HOL-Library.List_Lexorder" "HOL-Library.Char_ord"
begin

section \<open>Python values, dictionaries and exceptions\<close>

text \<open>
  Both scripts shuttle loosely typed data: the messages an agent returns, and the
  \<open>input\<close>, \<open>output\<close> and \<open>metadata\<close> fields of a recorded trace, which the SDK types
  as \<open>Any\<close>. Such data is modelled by the JSON-shaped values below. A dictionary is an
  association list with string keys, read with \<open>map_of\<close>; its keys are taken to be
  distinct, as in every Python dictionary. Floating-point numbers are left out: the
  scripts do nothing with a number but test it for truth and pass it on, as they do
  with an integer.
\<close>

datatype pyval =
    PNone
  | PBool bool
  | PInt int
  | PStr string
  | PList "pyval list"
  | PDict "(string \<times> pyval) list"

type_synonym pydict = "(string \<times> pyval) list"

text \<open>Python's truth value of an object, as tested by \<open>if x:\<close>, \<open>x and y\<close>, \<open>not x\<close>.\<close>

fun truthy :: "pyval \<Rightarrow> bool" where
  "truthy PNone = False"
| "truthy (PBool b) = b"
| "truthy (PInt i) = (i \<noteq> 0)"
| "truthy (PStr s) = (s \<noteq> [])"
| "truthy (PList xs) = (xs \<noteq> [])"
| "truthy (PDict d) = (d \<noteq> [])"

text \<open>
  An exception is an instance of a subclass of \<open>Exception\<close> (what \<open>except Exception\<close>
  and a bare \<open>except\<close> in these scripts catch); \<open>str_exn\<close> is \<open>str(e)\<close>. Interrupts
  and \<open>SystemExit\<close> are outside the model.
\<close>

datatype exn_class = KeyError | TypeError | AttributeError | MarkupError | OtherError

datatype pyexn = PyExn exn_class string

fun str_exn :: "pyexn \<Rightarrow> string" where
  "str_exn (PyExn c text) = text"

text \<open>
  \<open>repr\<close> of a key that has no quote, backslash or control character in it: the key
  between single quotes. It is the text of the \<open>KeyError\<close> that \<open>d[k]\<close> raises.
\<close>

definition repr_key :: "string \<Rightarrow> string" where
  "repr_key k = CHR 0x27 # k @ [CHR 0x27]"

text \<open>\<open>d[k]\<close>: raises \<open>KeyError\<close> when the key is absent.\<close>

definition subscript :: "pydict \<Rightarrow> string \<Rightarrow> pyexn + pyval" where
  "subscript d k =
     (case map_of d k of
        None \<Rightarrow> Inl (PyExn KeyError (repr_key k))
      | Some v \<Rightarrow> Inr v)"

text \<open>\<open>d.get(k, default)\<close>.\<close>

definition dict_get :: "pydict \<Rightarrow> string \<Rightarrow> pyval \<Rightarrow> pyval" where
  "dict_get d k dflt = (case map_of d k of None \<Rightarrow> dflt | Some v \<Rightarrow> v)"

text \<open>\<open>str(n)\<close> for a count, and \<open>sep.join(xs)\<close>.\<close>

fun decimal :: "nat \<Rightarrow> string" where
  "decimal n =
     (if n < 10 then [''0123456789'' ! n]
      else decimal (n div 10) @ [''0123456789'' ! (n mod 10)])"

declare decimal.simps [simp del]

fun join :: "string \<Rightarrow> string list \<Rightarrow> string" where
  "join sep [] = []"
| "join sep [x] = x"
| "join sep (x # y # ys) = x @ sep @ join sep (y # ys)"

section \<open>The console\<close>

text \<open>
  Every \<open>console.print(text)\<close> renders its text as markup, and the renderer raises
  \<open>MarkupError\<close> on some texts. The console is a parameter: for each text, whether
  printing it returns (\<open>None\<close>) or which exception it raises. A print that raises outside
  a \<open>try\<close> ends the function with that exception. The progress bar of \<open>track\<close> prints
  nothing through this console and is left out.
\<close>

type_synonym console = "string \<Rightarrow> pyexn option"

text \<open>Consecutive prints: the first one that raises ends the sequence.\<close>

fun print_all :: "console \<Rightarrow> string list \<Rightarrow> pyexn option" where
  "print_all console [] = None"
| "print_all console (text # texts) =
     (case console text of Some e \<Rightarrow> Some e | None \<Rightarrow> print_all console texts)"

text \<open>Characters that a string literal cannot hold, as UTF-8 bytes.\<close>

definition newline :: string where
  "newline = [CHR 0x0A]"

definition quote :: string where
  "quote = [CHR 0x27]"

definition check_mark :: string where
  "check_mark = [CHR 0xE2, CHR 0x9C, CHR 0x85]"

definition cross_mark :: string where
  "cross_mark = [CHR 0xE2, CHR 0x9D, CHR 0x8C]"

definition times_sign :: string where
  "times_sign = [CHR 0xC3, CHR 0x97]"

section \<open>The trace generator (scripts/generate_traces.py)\<close>

subsection \<open>Data\<close>

text \<open>
  A row of the query catalog (the CSV file with columns \<open>id\<close>, \<open>query\<close>,
  \<open>dietary_restriction\<close>); the catalog is the list of its rows, in file order.
\<close>

record query_row =
  row_id :: int
  row_query :: string
  row_dietary_restriction :: string

type_synonym catalog = "query_row list"

text \<open>
  The dictionary built by \<open>select_demo_queries\<close>, which \<open>main\<close> copies and extends with
  \<open>response_number\<close>: a field that is \<open>None\<close> here is a key the dictionary lacks.
\<close>

record query_data =
  qd_id :: int
  qd_query :: string
  qd_dietary_restriction :: string
  qd_response_number :: "int option"

text \<open>The metadata mapping handed to the agent.\<close>

record agent_metadata =
  md_dietary_restriction :: string
  md_response_number :: int

text \<open>
  The agent collaborator \<open>get_agent_response(messages, metadata)\<close> is a parameter: it
  either raises or returns a list of message dictionaries, and it may depend on and
  change a state of its own (the model, the network, the recording platform).
\<close>

type_synonym 's agent =
  "pydict list \<Rightarrow> agent_metadata \<Rightarrow> 's \<Rightarrow> (pyexn + pydict list) \<times> 's"

text \<open>The dictionary returned by \<open>generate_trace\<close>; \<open>error\<close> is present on failure only.\<close>

record trace_result =
  tr_query_id :: int
  tr_query :: string
  tr_dietary_restriction :: string
  tr_response :: pyval
  tr_success :: bool
  tr_error :: "string option"

subsection \<open>select_demo_queries\<close>

definition selected_ids :: "int list" where
  "selected_ids = [26, 43, 46, 48]"

text \<open>
  \<open>df[df['id'] == query_id]\<close> keeps the rows with that identifier, in order;
  \<open>iloc[0]\<close> is the first of them.
\<close>

definition rows_with_id :: "catalog \<Rightarrow> int \<Rightarrow> catalog" where
  "rows_with_id df query_id = filter (\<lambda>r. row_id r = query_id) df"

fun select_loop :: "catalog \<Rightarrow> int list \<Rightarrow> query_data list \<Rightarrow> query_data list" where
  "select_loop df [] selected_queries = selected_queries"
| "select_loop df (query_id # ids) selected_queries =
     (case rows_with_id df query_id of
        [] \<Rightarrow> select_loop df ids selected_queries
      | r # _ \<Rightarrow>
          select_loop df ids
            (selected_queries @
              [\<lparr>qd_id = row_id r, qd_query = row_query r,
                qd_dietary_restriction = row_dietary_restriction r,
                qd_response_number = None\<rparr>]))"

definition select_demo_queries :: "catalog \<Rightarrow> query_data list" where
  "select_demo_queries df = select_loop df selected_ids []"

subsection \<open>generate_trace\<close>

text \<open>
  The scan for the assistant's response: \<open>msg["role"]\<close> and \<open>msg["content"]\<close> are
  subscriptions, so a missing key raises; the loop stops at the first message whose
  role is \<open>"assistant"\<close>.
\<close>

fun assistant_response :: "pydict list \<Rightarrow> pyexn + pyval" where
  "assistant_response [] = Inr (PStr [])"
| "assistant_response (msg # response_messages) =
     (case subscript msg ''role'' of
        Inl e \<Rightarrow> Inl e
      | Inr role \<Rightarrow>
          if role = PStr ''assistant'' then subscript msg ''content''
          else assistant_response response_messages)"

text \<open>The message list and the metadata that \<open>generate_trace\<close> hands to the agent.\<close>

definition user_messages :: "string \<Rightarrow> pydict list" where
  "user_messages query = [[(''role'', PStr ''user''), (''content'', PStr query)]]"

definition request_metadata :: "query_data \<Rightarrow> agent_metadata" where
  "request_metadata query_data =
     \<lparr>md_dietary_restriction = qd_dietary_restriction query_data,
      md_response_number =
        (case qd_response_number query_data of None \<Rightarrow> 1 | Some n \<Rightarrow> n)\<rparr>"

definition generate_trace :: "'s agent \<Rightarrow> query_data \<Rightarrow> 's \<Rightarrow> trace_result \<times> 's" where
  "generate_trace get_agent_response query_data s =
     (let query = qd_query query_data;
          dietary_restriction = qd_dietary_restriction query_data;
          messages = user_messages query;
          metadata = request_metadata query_data;
          (returned, s') = get_agent_response messages metadata s
      in case (case returned of
                 Inl e \<Rightarrow> Inl e
               | Inr response_messages \<Rightarrow> assistant_response response_messages) of
           Inr assistant \<Rightarrow>
             (\<lparr>tr_query_id = qd_id query_data, tr_query = query,
               tr_dietary_restriction = dietary_restriction,
               tr_response = assistant, tr_success = True, tr_error = None\<rparr>, s')
         | Inl e \<Rightarrow>
             (\<lparr>tr_query_id = qd_id query_data, tr_query = query,
               tr_dietary_restriction = dietary_restriction,
               tr_response = PStr [], tr_success = False,
               tr_error = Some (str_exn e)\<rparr>, s'))"

subsection \<open>main\<close>

text \<open>The texts that \<open>main\<close> and the script's last lines print, in the order of the source.\<close>

definition title_text :: string where
  "title_text = ''[bold blue]Step 2: Generate Demo Traces[/bold blue]''"

definition rule_text :: string where
  "rule_text = replicate 50 (CHR ''='')"

definition not_found_text :: string where
  "not_found_text = ''[red]Error: homeworks/hw3/data/dietary_queries.csv not found![/red]''"

definition loaded_text :: "catalog \<Rightarrow> string" where
  "loaded_text df = ''[green]Loaded '' @ decimal (length df) @ '' dietary queries[/green]''"

definition selected_text :: "query_data list \<Rightarrow> string" where
  "selected_text demo_queries =
     ''[green]Selected '' @ decimal (length demo_queries) @ '' queries for demo[/green]''"

definition selected_header :: string where
  "selected_header = newline @ ''[bold]Selected Demo Queries:[/bold]''"

text \<open>
  \<open>f"{i}. [{query['dietary_restriction']}] {query['query'][:60]}..."\<close>, for \<open>i\<close> counting
  from 1.
\<close>

definition query_line :: "nat \<Rightarrow> query_data \<Rightarrow> string" where
  "query_line i query =
     decimal i @ ''. ['' @ qd_dietary_restriction query @ ''] '' @ take 60 (qd_query query)
       @ ''...''"

fun query_lines :: "nat \<Rightarrow> query_data list \<Rightarrow> string list" where
  "query_lines i [] = []"
| "query_lines i (query # demo_queries) = query_line i query # query_lines (Suc i) demo_queries"

definition generating_text :: "query_data list \<Rightarrow> string" where
  "generating_text demo_queries =
     newline @ ''[yellow]Generating '' @ decimal (length demo_queries * 3) @ '' traces (''
       @ decimal (length demo_queries) @ '' queries '' @ times_sign
       @ '' 3 responses each)...[/yellow]''"

definition sent_text :: string where
  "sent_text = ''[blue]Each trace will be sent to Langfuse automatically[/blue]''"

definition summary_header :: string where
  "summary_header = newline @ ''[bold]Generation Summary:[/bold]''"

definition successful_text :: "nat \<Rightarrow> string" where
  "successful_text n =
     ''[green]'' @ check_mark @ '' Successful traces: '' @ decimal n @ ''[/green]''"

definition failed_text :: "nat \<Rightarrow> string" where
  "failed_text n = ''[red]'' @ cross_mark @ '' Failed traces: '' @ decimal n @ ''[/red]''"

definition failed_header :: string where
  "failed_header = newline @ ''[red]Failed traces:[/red]''"

text \<open>\<open>f"- {trace['dietary_restriction']}: {trace.get('error', 'Unknown error')}"\<close>.\<close>

definition failure_line :: "trace_result \<Rightarrow> string" where
  "failure_line trace =
     ''- '' @ tr_dietary_restriction trace @ '': ''
       @ (case tr_error trace of None \<Rightarrow> ''Unknown error'' | Some error \<Rightarrow> error)"

definition failure_texts :: "trace_result list \<Rightarrow> string list" where
  "failure_texts failed_traces =
     (if failed_traces \<noteq> [] then failed_header # map failure_line failed_traces else [])"

text \<open>
  \<open>', '.join(sorted(restrictions_covered))\<close>: strings are ordered character by
  character, which on UTF-8 bytes is Python's order of code points.
\<close>

definition covered_text :: "string set \<Rightarrow> string" where
  "covered_text restrictions_covered =
     newline @ ''[blue]Dietary restrictions covered: ''
       @ join '', '' (sorted_list_of_set restrictions_covered) @ ''[/blue]''"

definition complete_text :: string where
  "complete_text = newline @ ''[bold green]Step 2 Complete! '' @ check_mark @ ''[/bold green]''"

definition dashboard_text :: "nat \<Rightarrow> string" where
  "dashboard_text n =
     ''[blue]Check your Langfuse dashboard to see the '' @ decimal n @ '' traces[/blue]''"

definition name_hint_text :: string where
  "name_hint_text =
     ''[yellow]Each trace should have a descriptive name like '' @ quote @ ''Query: I''
       @ quote @ ''m vegan but...'' @ quote @ ''[/yellow]''"

definition generation_failed_text :: string where
  "generation_failed_text = ''[red]Demo trace generation failed![/red]''"

definition generation_succeeded_text :: string where
  "generation_succeeded_text = ''[green]Demo traces generated successfully![/green]''"

text \<open>
  The two nested loops that build \<open>all_generations\<close>: for each query, in order, three
  copies with \<open>response_number\<close> set to \<open>i + 1\<close> for \<open>i\<close> in \<open>range(3)\<close>.
\<close>

definition copies_of :: "query_data \<Rightarrow> query_data list" where
  "copies_of query_data =
     map (\<lambda>i. query_data\<lparr>qd_response_number := Some (i + 1)\<rparr>) [0, 1, 2]"

fun build_generations :: "query_data list \<Rightarrow> query_data list" where
  "build_generations [] = []"
| "build_generations (query_data # demo_queries) =
     copies_of query_data @ build_generations demo_queries"

text \<open>The loop over \<open>all_generations\<close>: one call after the other, in list order.\<close>

fun run_generations ::
  "'s agent \<Rightarrow> query_data list \<Rightarrow> 's \<Rightarrow> trace_result list \<times> 's" where
  "run_generations agent [] s = ([], s)"
| "run_generations agent (generation_data # rest) s =
     (let (trace, s') = generate_trace agent generation_data s;
          (traces, s'') = run_generations agent rest s'
      in (trace # traces, s''))"

text \<open>
  What a run of \<open>main\<close> leaves: its local variables and how it ended, with the value
  returned or with the exception that a print raised. \<open>all_generations\<close> and \<open>traces\<close>
  start as empty lists; a variable that was never assigned is \<open>None\<close>.
\<close>

record run =
  run_all_generations :: "query_data list"
  run_traces :: "trace_result list"
  run_successful_traces :: "trace_result list option"
  run_failed_traces :: "trace_result list option"
  run_restrictions_covered :: "string set option"
  run_returned :: "pyexn + bool"

text \<open>
  Lines 116 to 156 of \<open>main\<close>: the two announcements, the requests, the generation
  loop, the summary with one line for each failed trace, the restrictions covered, and
  the closing lines.
\<close>

definition orchestrate :: "console \<Rightarrow> 's agent \<Rightarrow> query_data list \<Rightarrow> 's \<Rightarrow> run \<times> 's" where
  "orchestrate console agent demo_queries s =
     (case print_all console [generating_text demo_queries, sent_text] of
        Some e \<Rightarrow>
          (\<lparr>run_all_generations = [], run_traces = [], run_successful_traces = None,
            run_failed_traces = None, run_restrictions_covered = None,
            run_returned = Inl e\<rparr>, s)
      | None \<Rightarrow>
          (let all_generations = build_generations demo_queries;
               (traces, s') = run_generations agent all_generations s;
               successful_traces = filter tr_success traces;
               failed_traces = filter (\<lambda>t. \<not> tr_success t) traces
           in case print_all console
                  ([summary_header, successful_text (length successful_traces),
                    failed_text (length failed_traces)] @ failure_texts failed_traces) of
                Some e \<Rightarrow>
                  (\<lparr>run_all_generations = all_generations, run_traces = traces,
                    run_successful_traces = Some successful_traces,
                    run_failed_traces = Some failed_traces,
                    run_restrictions_covered = None, run_returned = Inl e\<rparr>, s')
              | None \<Rightarrow>
                  (let restrictions_covered =
                         set (map tr_dietary_restriction successful_traces)
                   in (\<lparr>run_all_generations = all_generations, run_traces = traces,
                         run_successful_traces = Some successful_traces,
                         run_failed_traces = Some failed_traces,
                         run_restrictions_covered = Some restrictions_covered,
                         run_returned =
                           (case print_all console
                                   [covered_text restrictions_covered, complete_text,
                                    dashboard_text (length successful_traces),
                                    name_hint_text] of
                              Some e \<Rightarrow> Inl e
                            | None \<Rightarrow> Inr (length successful_traces > 0))\<rparr>, s'))))"

text \<open>A run that ended before the orchestration.\<close>

definition ended_early :: "pyexn + bool \<Rightarrow> run" where
  "ended_early outcome =
     \<lparr>run_all_generations = [], run_traces = [], run_successful_traces = None,
      run_failed_traces = None, run_restrictions_covered = None, run_returned = outcome\<rparr>"

text \<open>
  \<open>load_dietary_queries\<close> prints an error and returns \<open>None\<close> when the file does not
  exist; the file system is the parameter \<open>csv\<close> (\<open>None\<close>: no file).
\<close>

definition load_dietary_queries :: "console \<Rightarrow> catalog option \<Rightarrow> pyexn + catalog option" where
  "load_dietary_queries console csv =
     (case csv of
        None \<Rightarrow> (case console not_found_text of Some e \<Rightarrow> Inl e | None \<Rightarrow> Inr None)
      | Some df \<Rightarrow> Inr (Some df))"

definition main :: "console \<Rightarrow> 's agent \<Rightarrow> catalog option \<Rightarrow> 's \<Rightarrow> run \<times> 's" where
  "main console agent csv s =
     (case print_all console [title_text, rule_text] of
        Some e \<Rightarrow> (ended_early (Inl e), s)
      | None \<Rightarrow>
          (case load_dietary_queries console csv of
             Inl e \<Rightarrow> (ended_early (Inl e), s)
           | Inr None \<Rightarrow> (ended_early (Inr False), s)
           | Inr (Some df) \<Rightarrow>
               (case console (loaded_text df) of
                  Some e \<Rightarrow> (ended_early (Inl e), s)
                | None \<Rightarrow>
                    (let demo_queries = select_demo_queries df
                     in case print_all console
                            ([selected_text demo_queries, selected_header]
                              @ query_lines 1 demo_queries) of
                          Some e \<Rightarrow> (ended_early (Inl e), s)
                        | None \<Rightarrow> orchestrate console agent demo_queries s))))"

text \<open>
  The script's last lines: after a false value, the failure line and \<open>exit(1)\<close>; after a
  true value, the success line and the normal end with status 0. An exception that
  leaves \<open>main\<close> or one of these prints ends the process with status 1.
\<close>

definition exit_status :: "console \<Rightarrow> pyexn + bool \<Rightarrow> nat" where
  "exit_status console returned =
     (case returned of
        Inl e \<Rightarrow> 1
      | Inr success \<Rightarrow>
          if \<not> success then
            (case console generation_failed_text of Some e \<Rightarrow> 1 | None \<Rightarrow> 1)
          else
            (case console generation_succeeded_text of Some e \<Rightarrow> 1 | None \<Rightarrow> 0))"

section \<open>The dataset builder (scripts/create_dataset.py)\<close>

subsection \<open>Data\<close>

text \<open>
  A trace as the platform returns it. The SDK types \<open>id\<close> as a string, \<open>name\<close> as an
  optional string, \<open>observations\<close> as an optional list of identifiers, and \<open>input\<close> and
  \<open>output\<close> as \<open>Any\<close>. For \<open>input\<close> and \<open>output\<close>, \<open>None\<close> is an absent attribute
  (\<open>hasattr\<close> is false) and \<open>Some PNone\<close> is Python's \<open>None\<close>; for \<open>observations\<close>,
  \<open>None\<close> is either.
\<close>

record trace =
  trace_id :: string
  trace_name :: "string option"
  trace_input :: "pyval option"
  trace_output :: "pyval option"
  trace_observations :: "string list option"

text \<open>An observation, of which only \<open>metadata\<close> is read (\<open>None\<close>: attribute absent).\<close>

record observation =
  obs_metadata :: "pyval option"

text \<open>The dictionary returned by \<open>extract_trace_data\<close>.\<close>

record extracted =
  item_query :: pyval
  item_dietary_restriction :: pyval
  item_response :: pyval
  item_trace_id :: string

text \<open>A dataset as \<open>create_dataset\<close> returns it.\<close>

record dataset =
  ds_name :: string
  ds_id :: string

text \<open>The arguments of one \<open>create_dataset_item\<close> call.\<close>

record dataset_item =
  di_dataset_name :: string
  di_input_query :: pyval
  di_input_dietary_restriction :: pyval
  di_input_response :: pyval
  di_expected_output :: pyval
  di_source_trace_id :: string
  di_metadata_dietary_restriction :: pyval

subsection \<open>get_demo_traces\<close>

text \<open>\<open>trace.name and trace.name.startswith("Query:")\<close>.\<close>

definition is_demo_name :: "string option \<Rightarrow> bool" where
  "is_demo_name name =
     (case name of None \<Rightarrow> False | Some n \<Rightarrow> n \<noteq> [] \<and> prefix ''Query:'' n)"

text \<open>The filtering loop, with its \<open>break\<close> once twelve traces are collected.\<close>

fun collect_demo_traces :: "trace list \<Rightarrow> trace list \<Rightarrow> trace list" where
  "collect_demo_traces [] demo_traces = demo_traces"
| "collect_demo_traces (trace # rest) demo_traces =
     (if is_demo_name (trace_name trace) then
        (if length (demo_traces @ [trace]) \<ge> 12 then demo_traces @ [trace]
         else collect_demo_traces rest (demo_traces @ [trace]))
      else collect_demo_traces rest demo_traces)"

text \<open>
  The client's construction \<open>Langfuse()\<close> and the platform read
  \<open>fetch_traces(limit, order_by)\<close> are parameters: \<open>client\<close> is the exception the
  constructor raises, if any. Whatever is raised inside the \<open>try\<close>, by the constructor,
  the call or a print, reaches the handler, which prints the exception's text and
  returns the empty list; an exception raised by that print leaves the function.
\<close>

definition fetching_text :: string where
  "fetching_text = ''[yellow]Fetching demo traces...[/yellow]''"

definition found_text :: "trace list \<Rightarrow> string" where
  "found_text demo_traces =
     ''[green]Found '' @ decimal (length demo_traces) @ '' demo traces[/green]''"

definition fetch_error_text :: "pyexn \<Rightarrow> string" where
  "fetch_error_text e = ''[red]Error fetching traces: '' @ str_exn e @ ''[/red]''"

definition get_demo_traces ::
  "console \<Rightarrow> pyexn option \<Rightarrow> (nat \<Rightarrow> string \<Rightarrow> pyexn + trace list) \<Rightarrow> pyexn + trace list" where
  "get_demo_traces console client fetch_traces =
     (case (case client of
              Some e \<Rightarrow> Inl e
            | None \<Rightarrow>
                (case console fetching_text of
                   Some e \<Rightarrow> Inl e
                 | None \<Rightarrow>
                     (case fetch_traces 20 ''timestamp.desc'' of
                        Inl e \<Rightarrow> Inl e
                      | Inr data \<Rightarrow>
                          (let demo_traces = collect_demo_traces data []
                           in case console (found_text demo_traces) of
                                Some e \<Rightarrow> Inl e
                              | None \<Rightarrow> Inr demo_traces)))) of
        Inr demo_traces \<Rightarrow> Inr demo_traces
      | Inl e \<Rightarrow>
          (case console (fetch_error_text e) of
             Some raised \<Rightarrow> Inl raised
           | None \<Rightarrow> Inr []))"

subsection \<open>extract_trace_data\<close>

definition type_name :: "pyval \<Rightarrow> string" where
  "type_name v =
     (case v of PNone \<Rightarrow> ''NoneType'' | PBool b \<Rightarrow> ''bool'' | PInt i \<Rightarrow> ''int''
      | PStr s \<Rightarrow> ''str'' | PList xs \<Rightarrow> ''list'' | PDict d \<Rightarrow> ''dict'')"

definition no_attribute :: "pyval \<Rightarrow> string \<Rightarrow> pyexn" where
  "no_attribute v a =
     PyExn AttributeError
       (repr_key (type_name v) @ '' object has no attribute '' @ repr_key a)"

text \<open>
  \<open>for msg in messages\<close>: a list yields its elements, a string its characters, a
  dictionary its keys; anything else is not iterable.
\<close>

definition py_iter :: "pyval \<Rightarrow> pyexn + pyval list" where
  "py_iter v =
     (case v of
        PList xs \<Rightarrow> Inr xs
      | PStr s \<Rightarrow> Inr (map (\<lambda>c. PStr [c]) s)
      | PDict d \<Rightarrow> Inr (map (\<lambda>kv. PStr (fst kv)) d)
      | _ \<Rightarrow> Inl (PyExn TypeError (repr_key (type_name v) @ '' object is not iterable'')))"

text \<open>\<open>v.get(k, default)\<close> on a value that need not be a dictionary.\<close>

definition py_get :: "pyval \<Rightarrow> string \<Rightarrow> pyval \<Rightarrow> pyexn + pyval" where
  "py_get v k dflt =
     (case v of PDict d \<Rightarrow> Inr (dict_get d k dflt) | _ \<Rightarrow> Inl (no_attribute v ''get''))"

text \<open>The scan for the first message whose role is \<open>"user"\<close>.\<close>

fun user_query :: "pyval list \<Rightarrow> pyexn + pyval" where
  "user_query [] = Inr (PStr [])"
| "user_query (msg # messages) =
     (case py_get msg ''role'' PNone of
        Inl e \<Rightarrow> Inl e
      | Inr role \<Rightarrow>
          if role = PStr ''user'' then py_get msg ''content'' (PStr [])
          else user_query messages)"

definition extract_query :: "trace \<Rightarrow> pyexn + pyval" where
  "extract_query trace =
     (case trace_input trace of
        None \<Rightarrow> Inr (PStr [])
      | Some inp \<Rightarrow>
          if truthy inp then
            (case inp of
               PDict d \<Rightarrow>
                 (case map_of d ''messages'' of
                    None \<Rightarrow> Inr (PStr [])
                  | Some messages \<Rightarrow>
                      (case py_iter messages of
                         Inl e \<Rightarrow> Inl e
                       | Inr msgs \<Rightarrow> user_query msgs))
             | _ \<Rightarrow> Inr (PStr []))
          else Inr (PStr []))"

definition extract_response :: "trace \<Rightarrow> pyval" where
  "extract_response trace =
     (case trace_output trace of
        None \<Rightarrow> PStr []
      | Some out \<Rightarrow>
          if truthy out then
            (case out of PDict d \<Rightarrow> dict_get d ''content'' (PStr []) | _ \<Rightarrow> PStr [])
          else PStr [])"

text \<open>
  The look-up of the first observation's metadata. \<open>get_observation\<close> is a parameter (the
  client's construction and the call); the inner \<open>try\<close> with its bare \<open>except\<close> swallows
  whatever is raised there, also by \<open>metadata.get\<close> on a value that is no dictionary.
\<close>

definition observed_restriction :: "(string \<Rightarrow> pyexn + observation) \<Rightarrow> trace \<Rightarrow> pyval" where
  "observed_restriction get_observation trace =
     (case trace_observations trace of
        None \<Rightarrow> PStr []
      | Some [] \<Rightarrow> PStr []
      | Some (obs_id # _) \<Rightarrow>
          if obs_id \<noteq> [] then
            (case get_observation obs_id of
               Inl e \<Rightarrow> PStr []
             | Inr observation \<Rightarrow>
                 (case obs_metadata observation of
                    None \<Rightarrow> PStr []
                  | Some metadata \<Rightarrow>
                      if truthy metadata then
                        (case py_get metadata ''dietary_restriction'' (PStr []) of
                           Inl e \<Rightarrow> PStr []
                         | Inr v \<Rightarrow> v)
                      else PStr []))
          else PStr [])"

text \<open>
  \<open>str.lower\<close> on the ASCII letters; every other character is left as it is. (No
  character outside ASCII has a lower-case form that makes one of the four keywords
  appear.)
\<close>

definition lower_char :: "char \<Rightarrow> char" where
  "lower_char c =
     (case map_of (zip ''ABCDEFGHIJKLMNOPQRSTUVWXYZ'' ''abcdefghijklmnopqrstuvwxyz'') c of
        None \<Rightarrow> c
      | Some l \<Rightarrow> l)"

definition py_lower :: "pyval \<Rightarrow> pyexn + string" where
  "py_lower v =
     (case v of PStr s \<Rightarrow> Inr (map lower_char s) | _ \<Rightarrow> Inl (no_attribute v ''lower''))"

text \<open>
  The \<open>if\<close>/\<open>elif\<close> chain of the fallback; \<open>k in query_lower\<close> is the substring test
  \<open>sublist k query_lower\<close>. With no keyword in the query the restriction keeps its value.
\<close>

definition infer_restriction :: "string \<Rightarrow> pyval \<Rightarrow> pyval" where
  "infer_restriction query_lower dietary_restriction =
     (if sublist ''gluten'' query_lower then PStr ''gluten-free''
      else if sublist ''sugar-free'' query_lower then PStr ''sugar-free''
      else if sublist ''vegetarian'' query_lower then PStr ''vegetarian''
      else if sublist ''paleo'' query_lower then PStr ''paleo''
      else dietary_restriction)"

text \<open>
  The whole function: an exception raised while the query is extracted or lowered
  reaches the outer handler, which prints the trace's identifier and the exception's
  text and returns \<open>None\<close>; an exception raised by that print leaves the function.
\<close>

definition extract_error_text :: "trace \<Rightarrow> pyexn \<Rightarrow> string" where
  "extract_error_text trace e =
     ''[yellow]Error extracting data from trace '' @ trace_id trace @ '': '' @ str_exn e
       @ ''[/yellow]''"

definition extract_trace_data ::
  "console \<Rightarrow> (string \<Rightarrow> pyexn + observation) \<Rightarrow> trace \<Rightarrow> pyexn + extracted option" where
  "extract_trace_data console get_observation trace =
     (case (case extract_query trace of
              Inl e \<Rightarrow> Inl e
            | Inr query \<Rightarrow>
                (let response = extract_response trace;
                     dietary_restriction = observed_restriction get_observation trace
                 in case (if \<not> truthy dietary_restriction \<and> truthy query then
                            (case py_lower query of
                               Inl e \<Rightarrow> Inl e
                             | Inr query_lower \<Rightarrow>
                                 Inr (infer_restriction query_lower dietary_restriction))
                          else Inr dietary_restriction) of
                      Inl e \<Rightarrow> Inl e
                    | Inr restriction \<Rightarrow>
                        Inr \<lparr>item_query = query, item_dietary_restriction = restriction,
                             item_response = response, item_trace_id = trace_id trace\<rparr>)) of
        Inr item \<Rightarrow> Inr (Some item)
      | Inl e \<Rightarrow>
          (case console (extract_error_text trace e) of
             Some raised \<Rightarrow> Inl raised
           | None \<Rightarrow> Inr None))"

subsection \<open>create_langfuse_dataset\<close>










text \<open>
  What a call leaves behind: how it ended (the dataset returned, \<open>None\<close> returned by the
  handler, or the exception that the handler's print raised), the items uploaded, the
  count if the "Added ... items" line was printed, and the platform state.
\<close>

record 'p outcome =
  out_returned :: "pyexn + dataset option"
  out_uploaded :: "dataset_item list"
  out_reported :: "nat option"
  out_platform :: 'p





section \<open>Notions used in the statements\<close>

text \<open>The record that \<open>select_demo_queries\<close> is specified to return for a catalog row.\<close>

definition query_of_row :: "query_row \<Rightarrow> query_data" where
  "query_of_row r =
     \<lparr>qd_id = row_id r, qd_query = row_query r,
      qd_dietary_restriction = row_dietary_restriction r, qd_response_number = None\<rparr>"

text \<open>No message of the list has the role \<open>"assistant"\<close>; every message has a role.\<close>

definition no_assistant_role :: "pydict list \<Rightarrow> bool" where
  "no_assistant_role ms = list_all (\<lambda>m. map_of m ''role'' \<noteq> Some (PStr ''assistant'')) ms"

definition all_roles_present :: "pydict list \<Rightarrow> bool" where
  "all_roles_present ms = list_all (\<lambda>m. map_of m ''role'' \<noteq> None) ms"



text \<open>
  The keyword heuristic in the words of the specification: an ordered list of
  keywords with their restrictions, searched for the first keyword that occurs in the
  lowercased query; the empty string when none occurs.
\<close>

definition spec_keywords :: "(string \<times> string) list" where
  "spec_keywords =
     [(''gluten'', ''gluten-free''), (''sugar-free'', ''sugar-free''),
      (''vegetarian'', ''vegetarian''), (''paleo'', ''paleo'')]"

definition spec_restriction :: "string \<Rightarrow> string" where
  "spec_restriction query =
     (case find (\<lambda>kr. sublist (fst kr) (map lower_char query)) spec_keywords of
        None \<Rightarrow> []
      | Some kr \<Rightarrow> snd kr)"

text \<open>
  The metadata of the first observation, when the trace links one with a non-empty
  identifier and fetching it returns. A trace has no metadata source when there is no
  such metadata, when the metadata is false or no dictionary, or when it lacks the key
  \<open>dietary_restriction\<close>. Otherwise the metadata holds a value for that key.
\<close>

definition first_metadata :: "(string \<Rightarrow> pyexn + observation) \<Rightarrow> trace \<Rightarrow> pyval option" where
  "first_metadata get_observation trace =
     (case trace_observations trace of
        None \<Rightarrow> None
      | Some [] \<Rightarrow> None
      | Some (obs_id # _) \<Rightarrow>
          if obs_id = [] then None
          else (case get_observation obs_id of
                  Inl e \<Rightarrow> None
                | Inr observation \<Rightarrow> obs_metadata observation))"

definition no_metadata_source :: "(string \<Rightarrow> pyexn + observation) \<Rightarrow> trace \<Rightarrow> bool" where
  "no_metadata_source get_observation trace =
     (case first_metadata get_observation trace of
        None \<Rightarrow> True
      | Some (PDict d) \<Rightarrow> map_of d ''dietary_restriction'' = None
      | Some metadata \<Rightarrow> True)"

definition metadata_holds :: "(string \<Rightarrow> pyexn + observation) \<Rightarrow> trace \<Rightarrow> pyval \<Rightarrow> bool" where
  "metadata_holds get_observation trace v =
     (case first_metadata get_observation trace of
        Some (PDict d) \<Rightarrow> map_of d ''dietary_restriction'' = Some v
      | _ \<Rightarrow> False)"









section \<open>Sample data and collaborators\<close>

subsection \<open>A console\<close>

text \<open>
  A console that checks the tags of a text as the markup renderer of the \<open>rich\<close>
  library does. A tag is an opening bracket, a character among the lower-case letters,
  \<open>#\<close>, \<open>/\<close> and \<open>@\<close>, then characters other than an opening bracket up to the first
  closing bracket; an odd number of backslashes before it makes it plain text. The name
  of a tag is what precedes \<open>=\<close>. An opening tag is pushed on a stack; a closing tag
  \<open>[/name]\<close> removes the latest open tag of that name and \<open>[/]\<close> the latest open tag,
  and either raises \<open>MarkupError\<close> when there is none. Names are compared as written,
  positions count bytes, and everything else the renderer does is left out.
\<close>

datatype scan_mode = Outside nat | Opened nat int | Inside nat int string nat

definition strip :: "string \<Rightarrow> string" where
  "strip s = rev (dropWhile (\<lambda>c. c = CHR '' '') (rev (dropWhile (\<lambda>c. c = CHR '' '') s)))"

definition unmatched_tag :: "string \<Rightarrow> int \<Rightarrow> pyexn" where
  "unmatched_tag body pos =
     PyExn MarkupError
       (''closing tag '' @ quote @ ''['' @ body @ '']'' @ quote @ '' at position ''
         @ decimal (nat pos) @ '' doesn'' @ quote @ ''t match any open tag'')"

definition nothing_to_close :: "int \<Rightarrow> pyexn" where
  "nothing_to_close pos =
     PyExn MarkupError
       (''closing tag '' @ quote @ ''[/]'' @ quote @ '' at position '' @ decimal (nat pos)
         @ '' has nothing to close'')"

definition apply_tag :: "int \<Rightarrow> string \<Rightarrow> string list \<Rightarrow> pyexn + string list" where
  "apply_tag pos body stack =
     (case takeWhile (\<lambda>c. c \<noteq> CHR ''='') body of
        [] \<Rightarrow> Inr stack
      | c # name \<Rightarrow>
          if c = CHR ''/'' then
            (if strip name \<noteq> [] then
               (if strip name \<in> set stack then Inr (remove1 (strip name) stack)
                else Inl (unmatched_tag body pos))
             else (case stack of [] \<Rightarrow> Inl (nothing_to_close pos) | _ # rest \<Rightarrow> Inr rest))
          else Inr ((c # name) # stack))"

fun markup_scan :: "scan_mode \<Rightarrow> int \<Rightarrow> string list \<Rightarrow> string \<Rightarrow> pyexn option" where
  "markup_scan mode i stack [] = None"
| "markup_scan (Outside bs) i stack (c # cs) =
     (if c = CHR 0x5C then markup_scan (Outside (bs + 1)) (i + 1) stack cs
      else if c = CHR ''['' then markup_scan (Opened bs i) (i + 1) stack cs
      else markup_scan (Outside 0) (i + 1) stack cs)"
| "markup_scan (Opened bs pos) i stack (c # cs) =
     (if c \<in> set ''abcdefghijklmnopqrstuvwxyz#/@'' then
        markup_scan (Inside bs pos [c] 0) (i + 1) stack cs
      else if c = CHR 0x5C then markup_scan (Outside 1) (i + 1) stack cs
      else if c = CHR ''['' then markup_scan (Opened 0 i) (i + 1) stack cs
      else markup_scan (Outside 0) (i + 1) stack cs)"
| "markup_scan (Inside bs pos body k) i stack (c # cs) =
     (if c = CHR '']'' then
        (if odd bs then markup_scan (Outside 0) (i + 1) stack cs
         else (case apply_tag pos body stack of
                 Inl e \<Rightarrow> Some e
               | Inr stack' \<Rightarrow> markup_scan (Outside 0) (i + 1) stack' cs))
      else if c = CHR ''['' then markup_scan (Opened k i) (i + 1) stack cs
      else markup_scan (Inside bs pos (body @ [c]) (if c = CHR 0x5C then k + 1 else 0))
             (i + 1) stack cs)"

definition markup_console :: console where
  "markup_console text = markup_scan (Outside 0) 0 [] text"

subsection \<open>For the trace generator\<close>

definition gluten_request :: query_data where
  "gluten_request =
     \<lparr>qd_id = 48, qd_query = ''I need a gluten-free dinner'',
      qd_dietary_restriction = ''gluten-free'', qd_response_number = Some 2\<rparr>"

definition four_queries :: "query_data list" where
  "four_queries =
     [\<lparr>qd_id = 26, qd_query = ''A sugar-free dessert'',
       qd_dietary_restriction = ''sugar-free'', qd_response_number = None\<rparr>,
      \<lparr>qd_id = 43, qd_query = ''A vegetarian lunch'',
       qd_dietary_restriction = ''vegetarian'', qd_response_number = None\<rparr>,
      \<lparr>qd_id = 46, qd_query = ''A paleo breakfast'',
       qd_dietary_restriction = ''paleo'', qd_response_number = None\<rparr>,
      \<lparr>qd_id = 48, qd_query = ''I need a gluten-free dinner'',
       qd_dietary_restriction = ''gluten-free'', qd_response_number = None\<rparr>]"

definition catalog_row :: "int \<Rightarrow> string \<Rightarrow> string \<Rightarrow> query_row" where
  "catalog_row i q d = \<lparr>row_id = i, row_query = q, row_dietary_restriction = d\<rparr>"

definition full_catalog :: catalog where
  "full_catalog =
     [catalog_row 1 ''A vegan soup'' ''vegan'',
      catalog_row 26 ''A sugar-free dessert'' ''sugar-free'',
      catalog_row 43 ''A vegetarian lunch'' ''vegetarian'',
      catalog_row 46 ''A paleo breakfast'' ''paleo'',
      catalog_row 48 ''I need a gluten-free dinner'' ''gluten-free'',
      catalog_row 48 ''A second row with the same id'' ''keto'']"

definition partial_catalog :: catalog where
  "partial_catalog =
     [catalog_row 48 ''I need a gluten-free dinner'' ''gluten-free'',
      catalog_row 1 ''A vegan soup'' ''vegan'',
      catalog_row 26 ''A sugar-free dessert'' ''sugar-free'']"

text \<open>An agent that raises a given exception, and one that returns a given reply.\<close>

definition raising_agent :: "pyexn \<Rightarrow> unit agent" where
  "raising_agent e messages metadata s = (Inl e, s)"

definition replying_agent :: "pydict list \<Rightarrow> unit agent" where
  "replying_agent reply messages metadata s = (Inr reply, s)"

definition system_message :: pydict where
  "system_message = [(''role'', PStr ''system''), (''content'', PStr ''You suggest recipes'')]"

definition recipe_message :: pydict where
  "recipe_message = [(''role'', PStr ''assistant''), (''content'', PStr ''Here is a recipe'')]"

definition second_message :: pydict where
  "second_message = [(''role'', PStr ''assistant''), (''content'', PStr ''Another recipe'')]"

definition roleless_message :: pydict where
  "roleless_message = [(''content'', PStr ''Here is a recipe'')]"


definition path_error :: pyexn where
  "path_error = PyExn OtherError ''404 Not Found for [/v1/messages]''"

definition faltering_agent :: "nat agent" where
  "faltering_agent messages metadata n =
     (if even n then Inr [recipe_message] else Inl path_error, Suc n)"

subsection \<open>For the dataset builder\<close>

definition named_trace :: "string \<Rightarrow> string option \<Rightarrow> trace" where
  "named_trace i n =
     \<lparr>trace_id = i, trace_name = n, trace_input = None, trace_output = None,
      trace_observations = None\<rparr>"

definition fetched_traces :: "trace list" where
  "fetched_traces =
     [named_trace ''t01'' (Some ''Query: a''), named_trace ''t02'' (Some ''Query: b''),
      named_trace ''t03'' (Some ''Warmup''), named_trace ''t04'' (Some ''Query: c''),
      named_trace ''t05'' (Some ''Query: d''), named_trace ''t06'' (Some ''Query: e''),
      named_trace ''t07'' None, named_trace ''t08'' (Some ''Query: f''),
      named_trace ''t09'' (Some ''Query: g''), named_trace ''t10'' (Some ''Query: h''),
      named_trace ''t11'' (Some ''Query: i''), named_trace ''t12'' (Some ''Query: j''),
      named_trace ''t13'' (Some ''Query: k''), named_trace ''t14'' (Some ''Query: l''),
      named_trace ''t15'' (Some ''Query: m''), named_trace ''t16'' (Some ''Query: n'')]"

definition fetch_returns :: "trace list \<Rightarrow> nat \<Rightarrow> string \<Rightarrow> pyexn + trace list" where
  "fetch_returns data limit order_by = Inr data"

definition fetch_raises :: "pyexn \<Rightarrow> nat \<Rightarrow> string \<Rightarrow> pyexn + trace list" where
  "fetch_raises e limit order_by = Inl e"

definition no_observation :: "string \<Rightarrow> pyexn + observation" where
  "no_observation obs_id = Inl (PyExn OtherError ''observation not found'')"

definition user_says :: "pyval \<Rightarrow> pyval" where
  "user_says content =
     PDict [(''messages'', PList [PDict [(''role'', PStr ''user''), (''content'', content)]])]"


definition gluten_trace :: trace where
  "gluten_trace =
     \<lparr>trace_id = ''trace-1'', trace_name = Some ''Query: I need a gluten-free dinner'',
      trace_input = Some (user_says (PStr ''I need a gluten-free dinner'')),
      trace_output = Some (PDict [(''content'', PStr ''Try a quinoa bowl'')]),
      trace_observations = Some [''obs-1'']\<rparr>"

definition plain_trace :: trace where
  "plain_trace =
     \<lparr>trace_id = ''trace-2'', trace_name = Some ''Query: A Quick Dinner'',
      trace_input = Some (user_says (PStr ''A Quick Dinner'')),
      trace_output = Some PNone,
      trace_observations = None\<rparr>"









text \<open>
  A fetch that fails with a text naming a path between brackets; an observation whose
  metadata holds \<open>None\<close> as restriction, and a trace linked to it.
\<close>

definition path_fetch_error :: pyexn where
  "path_fetch_error = PyExn OtherError ''status 404 for [/api/public/traces]''"

definition null_restriction_observation :: "string \<Rightarrow> pyexn + observation" where
  "null_restriction_observation obs_id =
     Inr \<lparr>obs_metadata = Some (PDict [(''dietary_restriction'', PNone),
                                        (''response_number'', PInt 1)])\<rparr>"

definition observed_trace :: "string \<Rightarrow> trace" where
  "observed_trace q =
     \<lparr>trace_id = ''trace-5'', trace_name = Some (''Query: '' @ q),
      trace_input = Some (user_says (PStr q)),
      trace_output = Some (PDict [(''content'', PStr ''Try a stir-fry'')]),
      trace_observations = Some [''obs-5'']\<rparr>"

section \<open>Properties of the trace generator\<close>

subsection \<open>select_demo_queries\<close>

lemma find_row_Some: "(\<exists>r. find (\<lambda>r. row_id r = i) df = Some r) \<longleftrightarrow> i \<in> row_id ` set df"
  by (induction df) auto

lemma find_row_id: "find (\<lambda>r. row_id r = i) df = Some r \<Longrightarrow> row_id r = i"
  by (induction df) (auto split: if_splits)

lemma rows_with_id_find:
  "rows_with_id df i = r # rs \<Longrightarrow> find (\<lambda>r. row_id r = i) df = Some r"
  unfolding rows_with_id_def by (induction df) (auto split: if_splits)

lemma rows_with_id_none:
  "rows_with_id df i = [] \<Longrightarrow> find (\<lambda>r. row_id r = i) df = None"
  by (auto simp: rows_with_id_def find_None_iff filter_empty_conv)

lemma select_loop_eq:
  "select_loop df ids acc =
     acc @ List.map_filter (\<lambda>i. map_option query_of_row (find (\<lambda>r. row_id r = i) df)) ids"
proof (induction ids arbitrary: acc)
  case Nil
  then show ?case by (simp add: map_filter_simps)
next
  case (Cons i ids)
  show ?case
  proof (cases "rows_with_id df i")
    case Nil
    with Cons rows_with_id_none [OF Nil] show ?thesis
      by (simp add: map_filter_simps)
  next
    case (Cons r rs)
    with Cons.IH rows_with_id_find [OF Cons] show ?thesis
      by (simp add: map_filter_simps query_of_row_def)
  qed
qed

lemma selected_ids_present:
  "map qd_id (List.map_filter (\<lambda>i. map_option query_of_row (find (\<lambda>r. row_id r = i) df)) ids)
   = filter (\<lambda>i. i \<in> row_id ` set df) ids"
proof (induction ids)
  case Nil
  then show ?case by (simp add: map_filter_simps)
next
  case (Cons i ids)
  show ?case
  proof (cases "find (\<lambda>r. row_id r = i) df")
    case None
    then have "i \<notin> row_id ` set df"
      using find_row_Some [of i df] by simp
    with None Cons show ?thesis by (simp add: map_filter_simps)
  next
    case (Some r)
    then have "i \<in> row_id ` set df" and "row_id r = i"
      using find_row_Some [of i df] find_row_id [of i df r] by auto
    with Some Cons show ?thesis by (simp add: map_filter_simps query_of_row_def)
  qed
qed

text \<open>
  Claim C5. For every catalog, \<open>select_demo_queries\<close> returns, in the order 26, 43, 46,
  48, the record of the first row of each of these identifiers that the catalog has, and
  nothing for an identifier it lacks: one record per identifier present. So a catalog
  that lacks one of the four yields fewer than four records and a catalog that has all
  four yields exactly four. The function is total: there is no catalog on which it
  fails.
\<close>

theorem select_demo_queries_present:
  "select_demo_queries df =
     List.map_filter (\<lambda>i. map_option query_of_row (find (\<lambda>r. row_id r = i) df)) [26, 43, 46, 48]
   \<and> map qd_id (select_demo_queries df) = filter (\<lambda>i. i \<in> row_id ` set df) [26, 43, 46, 48]
   \<and> ((\<exists>i \<in> {26, 43, 46, 48}. i \<notin> row_id ` set df) \<longrightarrow> length (select_demo_queries df) < 4)
   \<and> ((\<forall>i \<in> {26, 43, 46, 48}. i \<in> row_id ` set df) \<longrightarrow> length (select_demo_queries df) = 4)"
proof -
  let ?sel = "select_demo_queries df"
  let ?present = "filter (\<lambda>i. i \<in> row_id ` set df) [26, 43, 46, 48]"
  have eq: "?sel =
      List.map_filter (\<lambda>i. map_option query_of_row (find (\<lambda>r. row_id r = i) df)) [26, 43, 46, 48]"
    by (simp add: select_demo_queries_def selected_ids_def select_loop_eq)
  have ids: "map qd_id ?sel = ?present"
    by (simp only: eq selected_ids_present)
  have len: "length ?sel = length ?present"
    using ids by (metis length_map)
  have fewer: "(\<exists>i \<in> {26, 43, 46, 48}. i \<notin> row_id ` set df) \<longrightarrow> length ?sel < 4"
  proof
    assume "\<exists>i \<in> {26, 43, 46, 48}. i \<notin> row_id ` set df"
    then obtain i where "i \<in> set [26, 43, 46, 48]" and "\<not> i \<in> row_id ` set df"
      by auto
    then have "length ?present < length [26, 43, 46, 48 :: int]"
      by (rule length_filter_less)
    with len show "length ?sel < 4" by simp
  qed
  have exact: "(\<forall>i \<in> {26, 43, 46, 48}. i \<in> row_id ` set df) \<longrightarrow> length ?sel = 4"
  proof
    assume "\<forall>i \<in> {26, 43, 46, 48}. i \<in> row_id ` set df"
    then have "?present = [26, 43, 46, 48]" by simp
    with len show "length ?sel = 4" by simp
  qed
  from eq ids fewer exact show ?thesis by blast
qed

text \<open>
  Witness for C5: a catalog that lacks 43 and 46 yields the two records of 26 and 48; a
  catalog with all four (and two rows for 48) yields four records, the first row of 48
  among them.
\<close>

theorem select_demo_queries_present_witness:
  "map qd_id (select_demo_queries partial_catalog) = [26, 48]
   \<and> length (select_demo_queries partial_catalog) < 4
   \<and> length (select_demo_queries full_catalog) = 4
   \<and> select_demo_queries full_catalog = four_queries"
proof -
  have missing: "\<exists>i \<in> {26, 43, 46, 48}. i \<notin> row_id ` set partial_catalog"
    by (simp add: partial_catalog_def catalog_row_def)
  have present: "\<forall>i \<in> {26, 43, 46, 48}. i \<in> row_id ` set full_catalog"
    by (simp add: full_catalog_def catalog_row_def)
  have ids: "filter (\<lambda>i. i \<in> row_id ` set partial_catalog) [26, 43, 46, 48] = [26, 48]"
    by (simp add: partial_catalog_def catalog_row_def)
  have rows: "List.map_filter
      (\<lambda>i. map_option query_of_row (find (\<lambda>r. row_id r = i) full_catalog)) [26, 43, 46, 48]
      = four_queries"
    by (simp add: map_filter_simps full_catalog_def catalog_row_def query_of_row_def
        four_queries_def)
  from select_demo_queries_present [of partial_catalog]
  have p1: "map qd_id (select_demo_queries partial_catalog) =
      filter (\<lambda>i. i \<in> row_id ` set partial_catalog) [26, 43, 46, 48]"
    and p2: "(\<exists>i \<in> {26, 43, 46, 48}. i \<notin> row_id ` set partial_catalog) \<longrightarrow>
      length (select_demo_queries partial_catalog) < 4"
    by blast+
  from select_demo_queries_present [of full_catalog]
  have f1: "select_demo_queries full_catalog = List.map_filter
      (\<lambda>i. map_option query_of_row (find (\<lambda>r. row_id r = i) full_catalog)) [26, 43, 46, 48]"
    and f2: "(\<forall>i \<in> {26, 43, 46, 48}. i \<in> row_id ` set full_catalog) \<longrightarrow>
      length (select_demo_queries full_catalog) = 4"
    by blast+
  from p1 ids have "map qd_id (select_demo_queries partial_catalog) = [26, 48]"
    by (simp only:)
  moreover from p2 missing have "length (select_demo_queries partial_catalog) < 4"
    by (rule mp)
  moreover from f2 present have "length (select_demo_queries full_catalog) = 4"
    by (rule mp)
  moreover from f1 rows have "select_demo_queries full_catalog = four_queries"
    by (simp only:)
  ultimately show ?thesis by (intro conjI)
qed

subsection \<open>generate_trace\<close>

lemma generate_trace_raised:
  "agent (user_messages (qd_query q)) (request_metadata q) s = (Inl e, s') \<Longrightarrow>
   generate_trace agent q s =
     (\<lparr>tr_query_id = qd_id q, tr_query = qd_query q,
       tr_dietary_restriction = qd_dietary_restriction q,
       tr_response = PStr [], tr_success = False, tr_error = Some (str_exn e)\<rparr>, s')"
  by (simp add: generate_trace_def Let_def)

lemma generate_trace_returned:
  "agent (user_messages (qd_query q)) (request_metadata q) s = (Inr ms, s') \<Longrightarrow>
   generate_trace agent q s =
     (case assistant_response ms of
        Inr a \<Rightarrow>
          (\<lparr>tr_query_id = qd_id q, tr_query = qd_query q,
            tr_dietary_restriction = qd_dietary_restriction q,
            tr_response = a, tr_success = True, tr_error = None\<rparr>, s')
      | Inl e \<Rightarrow>
          (\<lparr>tr_query_id = qd_id q, tr_query = qd_query q,
            tr_dietary_restriction = qd_dietary_restriction q,
            tr_response = PStr [], tr_success = False, tr_error = Some (str_exn e)\<rparr>, s'))"
  by (simp add: generate_trace_def Let_def)


text \<open>The scan, by the shape of the returned list.\<close>

lemma assistant_response_none:
  "all_roles_present ms \<Longrightarrow> no_assistant_role ms \<Longrightarrow> assistant_response ms = Inr (PStr [])"
  by (induction ms) (auto simp: all_roles_present_def no_assistant_role_def subscript_def)

lemma assistant_response_first:
  "all_roles_present pre \<Longrightarrow> no_assistant_role pre \<Longrightarrow>
   map_of m ''role'' = Some (PStr ''assistant'') \<Longrightarrow>
   assistant_response (pre @ m # rest) = subscript m ''content''"
  by (induction pre) (auto simp: all_roles_present_def no_assistant_role_def subscript_def)

lemma assistant_response_missing_role:
  "no_assistant_role pre \<Longrightarrow> map_of m ''role'' = None \<Longrightarrow>
   assistant_response (pre @ m # rest) = Inl (PyExn KeyError (repr_key ''role''))"
  by (induction pre) (auto simp: no_assistant_role_def subscript_def split: option.splits)

lemma assistant_response_roles:
  "assistant_response ms = Inr v \<Longrightarrow> no_assistant_role ms \<Longrightarrow> all_roles_present ms"
  by (induction ms)
    (auto simp: all_roles_present_def no_assistant_role_def subscript_def
      split: option.splits if_splits)

text \<open>
  Claim C2, as amended. When the agent, called with the one-message list built from the
  query and with the metadata carrying the restriction and the response number, raises
  an exception, \<open>generate_trace\<close> returns a record with \<open>success\<close> false, the empty
  response and the text of the exception as \<open>error\<close>; nothing propagates. The text is
  whatever \<open>str(e)\<close> is: it is empty when the exception carries no message.
\<close>

theorem generate_trace_agent_raises:
  "agent (user_messages (qd_query q)) (request_metadata q) s = (Inl e, s') \<Longrightarrow>
   generate_trace agent q s =
     (\<lparr>tr_query_id = qd_id q, tr_query = qd_query q,
       tr_dietary_restriction = qd_dietary_restriction q,
       tr_response = PStr [], tr_success = False, tr_error = Some (str_exn e)\<rparr>, s')"
  by (rule generate_trace_raised)

text \<open>Witness for C2: an agent that raises with the text "rate limit exceeded".\<close>

theorem generate_trace_agent_raises_witness:
  "generate_trace (raising_agent (PyExn OtherError ''rate limit exceeded'')) gluten_request () =
     (\<lparr>tr_query_id = 48, tr_query = ''I need a gluten-free dinner'',
       tr_dietary_restriction = ''gluten-free'',
       tr_response = PStr [], tr_success = False,
       tr_error = Some ''rate limit exceeded''\<rparr>, ())"
proof -
  have raised: "raising_agent (PyExn OtherError ''rate limit exceeded'')
      (user_messages (qd_query gluten_request)) (request_metadata gluten_request) () =
      (Inl (PyExn OtherError ''rate limit exceeded''), ())"
    by (simp add: raising_agent_def)
  from generate_trace_agent_raises
    [where agent = "raising_agent (PyExn OtherError ''rate limit exceeded'')"
      and q = gluten_request and s = "()" and s' = "()"
      and e = "PyExn OtherError ''rate limit exceeded''", OF raised]
  show ?thesis
    by (simp add: gluten_request_def)
qed

text \<open>
  Counterexample for C2 as stated: an agent that raises an exception without a message
  (\<open>str(e)\<close> is empty, as for \<open>TimeoutError()\<close>) yields a failure record whose error
  string is empty.
\<close>

theorem generate_trace_empty_error_text:
  "tr_success (fst (generate_trace (raising_agent (PyExn OtherError [])) gluten_request ())) = False
   \<and> tr_error (fst (generate_trace (raising_agent (PyExn OtherError [])) gluten_request ())) = Some []"
  by (simp add: generate_trace_def Let_def raising_agent_def)

text \<open>
  Claim C6, as amended. If the agent returns a list in which every message carries a
  \<open>role\<close> key and none has the role \<open>"assistant"\<close>, the record has the empty response and
  \<open>success\<close> true. If the list has a message with the role \<open>"assistant"\<close> that carries a
  \<open>content\<close> key, and every message before it carries a \<open>role\<close> key other than
  \<open>"assistant"\<close>, the response is the content of that message, the first
  assistant-authored one in list order, and \<open>success\<close> is true.
\<close>

theorem generate_trace_first_assistant:
  "(agent (user_messages (qd_query q)) (request_metadata q) s = (Inr ms, s') \<and>
      all_roles_present ms \<and> no_assistant_role ms \<longrightarrow>
    generate_trace agent q s =
      (\<lparr>tr_query_id = qd_id q, tr_query = qd_query q,
        tr_dietary_restriction = qd_dietary_restriction q,
        tr_response = PStr [], tr_success = True, tr_error = None\<rparr>, s'))
   \<and> (agent (user_messages (qd_query q)) (request_metadata q) s = (Inr (pre @ m # rest), s') \<and>
      all_roles_present pre \<and> no_assistant_role pre \<and>
      map_of m ''role'' = Some (PStr ''assistant'') \<and> map_of m ''content'' = Some c \<longrightarrow>
    generate_trace agent q s =
      (\<lparr>tr_query_id = qd_id q, tr_query = qd_query q,
        tr_dietary_restriction = qd_dietary_restriction q,
        tr_response = c, tr_success = True, tr_error = None\<rparr>, s'))"
proof (intro conjI impI)
  assume a: "agent (user_messages (qd_query q)) (request_metadata q) s = (Inr ms, s') \<and>
      all_roles_present ms \<and> no_assistant_role ms"
  then have "assistant_response ms = Inr (PStr [])"
    by (simp add: assistant_response_none)
  with a show "generate_trace agent q s =
      (\<lparr>tr_query_id = qd_id q, tr_query = qd_query q,
        tr_dietary_restriction = qd_dietary_restriction q,
        tr_response = PStr [], tr_success = True, tr_error = None\<rparr>, s')"
    by (simp add: generate_trace_returned)
next
  assume a: "agent (user_messages (qd_query q)) (request_metadata q) s = (Inr (pre @ m # rest), s') \<and>
      all_roles_present pre \<and> no_assistant_role pre \<and>
      map_of m ''role'' = Some (PStr ''assistant'') \<and> map_of m ''content'' = Some c"
  then have "assistant_response (pre @ m # rest) = Inr c"
    by (simp add: assistant_response_first subscript_def)
  with a show "generate_trace agent q s =
      (\<lparr>tr_query_id = qd_id q, tr_query = qd_query q,
        tr_dietary_restriction = qd_dietary_restriction q,
        tr_response = c, tr_success = True, tr_error = None\<rparr>, s')"
    by (simp add: generate_trace_returned)
qed

text \<open>
  Witness for C6: a reply with a system message only gives the empty response; a reply
  with a system message followed by two assistant messages gives the content of the
  first of the two.
\<close>

theorem generate_trace_first_assistant_witness:
  "generate_trace (replying_agent [system_message]) gluten_request () =
     (\<lparr>tr_query_id = 48, tr_query = ''I need a gluten-free dinner'',
       tr_dietary_restriction = ''gluten-free'',
       tr_response = PStr [], tr_success = True, tr_error = None\<rparr>, ())
   \<and> generate_trace (replying_agent [system_message, recipe_message, second_message])
       gluten_request () =
     (\<lparr>tr_query_id = 48, tr_query = ''I need a gluten-free dinner'',
       tr_dietary_restriction = ''gluten-free'',
       tr_response = PStr ''Here is a recipe'', tr_success = True, tr_error = None\<rparr>, ())"
proof -
  have r1: "replying_agent [system_message]
      (user_messages (qd_query gluten_request)) (request_metadata gluten_request) () =
      (Inr [system_message], ()) \<and>
      all_roles_present [system_message] \<and> no_assistant_role [system_message]"
    by (simp add: replying_agent_def all_roles_present_def no_assistant_role_def
        system_message_def)
  have r2: "replying_agent [system_message, recipe_message, second_message]
      (user_messages (qd_query gluten_request)) (request_metadata gluten_request) () =
      (Inr ([system_message] @ recipe_message # [second_message]), ()) \<and>
      all_roles_present [system_message] \<and> no_assistant_role [system_message] \<and>
      map_of recipe_message ''role'' = Some (PStr ''assistant'') \<and>
      map_of recipe_message ''content'' = Some (PStr ''Here is a recipe'')"
    by (simp add: replying_agent_def all_roles_present_def no_assistant_role_def
        system_message_def recipe_message_def)
  from generate_trace_first_assistant
    [where agent = "replying_agent [system_message]" and q = gluten_request and s = "()"
      and s' = "()" and ms = "[system_message]"]
    r1
  have "generate_trace (replying_agent [system_message]) gluten_request () =
     (\<lparr>tr_query_id = qd_id gluten_request, tr_query = qd_query gluten_request,
       tr_dietary_restriction = qd_dietary_restriction gluten_request,
       tr_response = PStr [], tr_success = True, tr_error = None\<rparr>, ())"
    by blast
  moreover
  from generate_trace_first_assistant
    [where agent = "replying_agent [system_message, recipe_message, second_message]"
      and q = gluten_request and s = "()" and s' = "()" and pre = "[system_message]"
      and m = recipe_message and rest = "[second_message]" and c = "PStr ''Here is a recipe''"]
    r2
  have "generate_trace (replying_agent [system_message, recipe_message, second_message])
       gluten_request () =
     (\<lparr>tr_query_id = qd_id gluten_request, tr_query = qd_query gluten_request,
       tr_dietary_restriction = qd_dietary_restriction gluten_request,
       tr_response = PStr ''Here is a recipe'', tr_success = True, tr_error = None\<rparr>, ())"
    by blast
  ultimately show ?thesis
    by (simp add: gluten_request_def)
qed

text \<open>
  Counterexample for C6 as stated: the agent returns one message, which has a content
  but no \<open>role\<close> key. The list holds no message with the role \<open>"assistant"\<close>, and the
  record has \<open>success\<close> false.
\<close>

theorem generate_trace_roleless_reply_fails:
  "map_of roleless_message ''role'' = None
   \<and> no_assistant_role [roleless_message]
   \<and> tr_success (fst (generate_trace (replying_agent [roleless_message]) gluten_request ()))
       = False"
  by (simp add: generate_trace_def Let_def replying_agent_def roleless_message_def
      no_assistant_role_def subscript_def)

text \<open>
  Claim C10. If the list the agent returns has a message without a \<open>role\<close> key and no
  message before it has the role \<open>"assistant"\<close>, the look-up \<open>msg["role"]\<close> raises
  \<open>KeyError\<close>, and \<open>generate_trace\<close> returns a record with \<open>success\<close> false, the empty
  response and the text of that \<open>KeyError\<close> as error. Hence, for a list without an
  assistant message, \<open>success\<close> is true only if every message carries a \<open>role\<close> key.
\<close>

theorem generate_trace_missing_role:
  "(agent (user_messages (qd_query q)) (request_metadata q) s = (Inr (pre @ m # rest), s') \<and>
      no_assistant_role pre \<and> map_of m ''role'' = None \<longrightarrow>
    subscript m ''role'' = Inl (PyExn KeyError (repr_key ''role'')) \<and>
    generate_trace agent q s =
      (\<lparr>tr_query_id = qd_id q, tr_query = qd_query q,
        tr_dietary_restriction = qd_dietary_restriction q,
        tr_response = PStr [], tr_success = False,
        tr_error = Some (repr_key ''role'')\<rparr>, s'))
   \<and> (agent (user_messages (qd_query q)) (request_metadata q) s = (Inr ms, s') \<and>
      no_assistant_role ms \<and> tr_success (fst (generate_trace agent q s)) \<longrightarrow>
      all_roles_present ms)"
proof (intro conjI impI)
  assume a: "agent (user_messages (qd_query q)) (request_metadata q) s = (Inr (pre @ m # rest), s') \<and>
      no_assistant_role pre \<and> map_of m ''role'' = None"
  then show "subscript m ''role'' = Inl (PyExn KeyError (repr_key ''role''))"
    by (simp add: subscript_def)
  from a have "assistant_response (pre @ m # rest) = Inl (PyExn KeyError (repr_key ''role''))"
    by (simp add: assistant_response_missing_role)
  with a show "generate_trace agent q s =
      (\<lparr>tr_query_id = qd_id q, tr_query = qd_query q,
        tr_dietary_restriction = qd_dietary_restriction q,
        tr_response = PStr [], tr_success = False,
        tr_error = Some (repr_key ''role'')\<rparr>, s')"
    by (simp add: generate_trace_returned)
next
  assume a: "agent (user_messages (qd_query q)) (request_metadata q) s = (Inr ms, s') \<and>
      no_assistant_role ms \<and> tr_success (fst (generate_trace agent q s))"
  then obtain v where "assistant_response ms = Inr v"
    by (cases "assistant_response ms") (auto simp: generate_trace_returned)
  with a show "all_roles_present ms"
    using assistant_response_roles by blast
qed

text \<open>
  Witness for C10: a system message, then a message without a role, then an assistant
  message: the record is a failure whose error is the quoted key; a reply with the
  system message alone succeeds, and its one message carries a role.
\<close>

theorem generate_trace_missing_role_witness:
  "generate_trace (replying_agent [system_message, roleless_message, recipe_message])
       gluten_request () =
     (\<lparr>tr_query_id = 48, tr_query = ''I need a gluten-free dinner'',
       tr_dietary_restriction = ''gluten-free'',
       tr_response = PStr [], tr_success = False,
       tr_error = Some [CHR 0x27, CHR ''r'', CHR ''o'', CHR ''l'', CHR ''e'', CHR 0x27]\<rparr>, ())
   \<and> tr_success (fst (generate_trace (replying_agent [system_message]) gluten_request ()))
   \<and> all_roles_present [system_message]"
proof -
  have r1: "replying_agent [system_message, roleless_message, recipe_message]
      (user_messages (qd_query gluten_request)) (request_metadata gluten_request) () =
      (Inr ([system_message] @ roleless_message # [recipe_message]), ()) \<and>
      no_assistant_role [system_message] \<and> map_of roleless_message ''role'' = None"
    by (simp add: replying_agent_def no_assistant_role_def system_message_def
        roleless_message_def)
  have r2: "replying_agent [system_message]
      (user_messages (qd_query gluten_request)) (request_metadata gluten_request) () =
      (Inr [system_message], ()) \<and> no_assistant_role [system_message]"
    by (simp add: replying_agent_def no_assistant_role_def system_message_def)
  have ok: "tr_success (fst (generate_trace (replying_agent [system_message]) gluten_request ()))"
    by (simp add: generate_trace_def Let_def replying_agent_def system_message_def
        subscript_def)
  from generate_trace_missing_role
    [where agent = "replying_agent [system_message, roleless_message, recipe_message]"
      and q = gluten_request and s = "()" and s' = "()" and pre = "[system_message]"
      and m = roleless_message and rest = "[recipe_message]"]
    r1
  have "generate_trace (replying_agent [system_message, roleless_message, recipe_message])
       gluten_request () =
     (\<lparr>tr_query_id = qd_id gluten_request, tr_query = qd_query gluten_request,
       tr_dietary_restriction = qd_dietary_restriction gluten_request,
       tr_response = PStr [], tr_success = False,
       tr_error = Some (repr_key ''role'')\<rparr>, ())"
    by blast
  moreover
  from generate_trace_missing_role
    [where agent = "replying_agent [system_message]" and q = gluten_request and s = "()"
      and s' = "()" and ms = "[system_message]"]
    r2 ok
  have "all_roles_present [system_message]"
    by blast
  ultimately show ?thesis
    using ok by (simp add: gluten_request_def repr_key_def)
qed

section \<open>Properties of the sample console\<close>

lemma markup_scan_plain:
  "CHR ''['' \<notin> set cs \<Longrightarrow> markup_scan (Outside bs) i stack cs = None"
  by (induction cs arbitrary: bs i) auto

lemma markup_console_plain: "CHR ''['' \<notin> set cs \<Longrightarrow> markup_console cs = None"
  by (simp add: markup_console_def markup_scan_plain)

lemmas console_eval =
  markup_console_def apply_tag_def strip_def unmatched_tag_def nothing_to_close_def
  newline_def quote_def check_mark_def cross_mark_def times_sign_def decimal.simps

subsection \<open>The orchestration in main\<close>















subsection \<open>The value returned by main and the exit status\<close>

lemma filter_nonempty_iff: "(0 < length (filter P xs)) = (\<exists>x \<in> set xs. P x)"
  by (simp add: filter_empty_conv)

text \<open>
  When \<open>main\<close> returns a value, the value tells whether some attempt succeeded, and the
  status is 0 only after a true value.
\<close>

lemma orchestrate_returned_value:
  "run_returned (fst (orchestrate console agent demo_queries s)) = Inr b \<Longrightarrow>
   b \<longleftrightarrow> (\<exists>t \<in> set (run_traces (fst (orchestrate console agent demo_queries s))). tr_success t)"
  by (auto simp: orchestrate_def Let_def filter_empty_conv
      split: option.splits prod.splits)

lemma main_returned_value:
  "run_returned (fst (main console agent csv s)) = Inr b \<Longrightarrow>
   b \<longleftrightarrow> (\<exists>t \<in> set (run_traces (fst (main console agent csv s))). tr_success t)"
  by (auto simp: main_def ended_early_def Let_def dest: orchestrate_returned_value
      split: option.splits sum.splits)

lemma exit_status_zero:
  "exit_status console returned = 0 \<longleftrightarrow>
   returned = Inr True \<and> console generation_succeeded_text = None"
  by (auto simp: exit_status_def split: sum.splits option.splits)

lemma print_all_append:
  "print_all console (xs @ ys) =
     (case print_all console xs of Some e \<Rightarrow> Some e | None \<Rightarrow> print_all console ys)"
  by (induction xs) (simp_all split: option.splits)

lemma failure_texts_first:
  "xs \<noteq> [] \<Longrightarrow>
   failure_texts xs = failed_header # failure_line (hd xs) # map failure_line (tl xs)"
  by (cases xs) (simp_all add: failure_texts_def)

lemma orchestrate_summary_raises:
  assumes "print_all console [generating_text demo_queries, sent_text] = None"
    and "print_all console
          ([summary_header,
            successful_text (length (filter tr_success
              (fst (run_generations agent (build_generations demo_queries) s)))),
            failed_text (length (filter (\<lambda>t. \<not> tr_success t)
              (fst (run_generations agent (build_generations demo_queries) s))))]
           @ failure_texts (filter (\<lambda>t. \<not> tr_success t)
              (fst (run_generations agent (build_generations demo_queries) s)))) = Some e"
  shows "orchestrate console agent demo_queries s =
     (\<lparr>run_all_generations = build_generations demo_queries,
       run_traces = fst (run_generations agent (build_generations demo_queries) s),
       run_successful_traces = Some (filter tr_success
         (fst (run_generations agent (build_generations demo_queries) s))),
       run_failed_traces = Some (filter (\<lambda>t. \<not> tr_success t)
         (fst (run_generations agent (build_generations demo_queries) s))),
       run_restrictions_covered = None, run_returned = Inl e\<rparr>,
      snd (run_generations agent (build_generations demo_queries) s))"
  using assms unfolding orchestrate_def
  by (simp only: Let_def option.case split_beta prod.collapse)

text \<open>
  Claim C9, at an input where the code departs from it. The catalog has the four
  identifiers; the agent raises on every second call an exception whose text names a
  path between brackets. Six of the twelve attempts succeed. The summary then prints
  one line for each failed trace with the text of its error, the console raises
  \<open>MarkupError\<close> on the first of them, the exception leaves \<open>main\<close>, and the process ends
  with status 1.
\<close>

theorem main_failure_line_raises:
  "length (filter tr_success
      (run_traces (fst (main markup_console faltering_agent (Some full_catalog) 0)))) = 6
   \<and> run_returned (fst (main markup_console faltering_agent (Some full_catalog) 0)) =
       Inl (PyExn MarkupError
         (''closing tag '' @ quote @ ''[/v1/messages]'' @ quote
           @ '' at position 32 doesn'' @ quote @ ''t match any open tag''))
   \<and> exit_status markup_console
       (run_returned (fst (main markup_console faltering_agent (Some full_catalog) 0))) = 1"
proof -
  have sel: "select_demo_queries full_catalog = four_queries"
    by (simp add: select_demo_queries_def selected_ids_def rows_with_id_def full_catalog_def
        catalog_row_def four_queries_def)
  have rule: "markup_console rule_text = None"
    by (rule markup_console_plain) (simp add: rule_text_def)
  have title: "markup_console title_text = None"
    by (simp add: console_eval title_text_def)
  have intro: "print_all markup_console [title_text, rule_text] = None"
    by (simp add: title rule)
  have loaded: "markup_console (loaded_text full_catalog) = None"
    by (simp add: console_eval loaded_text_def full_catalog_def)
  have listed: "print_all markup_console
      ([selected_text four_queries, selected_header] @ query_lines 1 four_queries) = None"
    by (simp add: console_eval selected_text_def selected_header_def query_line_def
        four_queries_def)
  have started: "main markup_console faltering_agent (Some full_catalog) 0 =
      orchestrate markup_console faltering_agent four_queries 0"
    unfolding main_def load_dietary_queries_def intro
    by (simp only: option.case sum.case loaded Let_def sel listed)
  have announced: "print_all markup_console [generating_text four_queries, sent_text] = None"
    by (simp add: console_eval generating_text_def sent_text_def four_queries_def)
  have outcomes: "map tr_success
      (fst (run_generations faltering_agent (build_generations four_queries) 0)) =
      [True, False, True, False, True, False, True, False, True, False, True, False]"
    by (simp add: four_queries_def copies_of_def generate_trace_def faltering_agent_def
        recipe_message_def subscript_def Let_def)
  have first_failure: "hd (filter (\<lambda>t. \<not> tr_success t)
      (fst (run_generations faltering_agent (build_generations four_queries) 0))) =
      \<lparr>tr_query_id = 26, tr_query = ''A sugar-free dessert'',
       tr_dietary_restriction = ''sugar-free'', tr_response = PStr [], tr_success = False,
       tr_error = Some ''404 Not Found for [/v1/messages]''\<rparr>"
    by (simp add: four_queries_def copies_of_def generate_trace_def faltering_agent_def
        recipe_message_def subscript_def Let_def path_error_def)
  let ?traces = "fst (run_generations faltering_agent (build_generations four_queries) 0)"
  let ?failed = "filter (\<lambda>t. \<not> tr_success t) ?traces"
  let ?raised = "PyExn MarkupError
      (''closing tag '' @ quote @ ''[/v1/messages]'' @ quote
        @ '' at position 32 doesn'' @ quote @ ''t match any open tag'')"
  have succeeded: "length (filter tr_success ?traces) = 6"
    using arg_cong [OF outcomes, of "\<lambda>bs. length (filter id bs)"]
    by (simp add: filter_map comp_def)
  have failed: "length ?failed = 6"
    using arg_cong [OF outcomes, of "\<lambda>bs. length (filter Not bs)"]
    by (simp add: filter_map comp_def)
  then have "?failed \<noteq> []" by auto
  then have texts: "failure_texts ?failed =
      failed_header # failure_line (hd ?failed) # map failure_line (tl ?failed)"
    by (rule failure_texts_first)
  have line: "markup_console (failure_line (hd ?failed)) = Some ?raised"
    unfolding first_failure by (simp add: console_eval failure_line_def)
  have counts: "print_all markup_console [summary_header, successful_text 6, failed_text 6,
      failed_header] = None"
    by (simp add: console_eval summary_header_def successful_text_def failed_text_def
        failed_header_def)
  have "print_all markup_console
      ([summary_header, successful_text 6, failed_text 6, failed_header]
        @ (failure_line (hd ?failed) # map failure_line (tl ?failed))) = Some ?raised"
    by (simp only: print_all_append counts option.case)
      (simp only: print_all.simps line option.case)
  then have summary: "print_all markup_console
      ([summary_header, successful_text (length (filter tr_success ?traces)),
        failed_text (length ?failed)] @ failure_texts ?failed) = Some ?raised"
    by (simp only: succeeded failed texts append.simps)
  note run = orchestrate_summary_raises [OF announced summary]
  have returned: "run_returned (fst (main markup_console faltering_agent (Some full_catalog) 0))
      = Inl ?raised"
    by (simp only: started run fst_conv run.select_convs)
  have "run_traces (fst (main markup_console faltering_agent (Some full_catalog) 0)) = ?traces"
    by (simp only: started run fst_conv run.select_convs)
  with succeeded have "length (filter tr_success
      (run_traces (fst (main markup_console faltering_agent (Some full_catalog) 0)))) = 6"
    by (simp only:)
  moreover note returned
  moreover have "exit_status markup_console
      (run_returned (fst (main markup_console faltering_agent (Some full_catalog) 0))) = 1"
    by (simp only: returned exit_status_def sum.case)
  ultimately show ?thesis by (intro conjI)
qed

section \<open>Properties of the dataset builder\<close>

subsection \<open>get_demo_traces\<close>

lemma is_demo_name_iff: "is_demo_name name \<longleftrightarrow> (\<exists>n. name = Some n \<and> prefix ''Query:'' n)"
  by (cases name) (auto simp: is_demo_name_def)

lemma collect_demo_traces_eq:
  "length acc < 12 \<Longrightarrow>
   collect_demo_traces xs acc =
     acc @ take (12 - length acc) (filter (\<lambda>t. is_demo_name (trace_name t)) xs)"
proof (induction xs arbitrary: acc)
  case Nil
  then show ?case by simp
next
  case (Cons t xs)
  show ?case
  proof (cases "is_demo_name (trace_name t)")
    case False
    with Cons show ?thesis by simp
  next
    case True
    show ?thesis
    proof (cases "length acc = 11")
      case True
      with \<open>is_demo_name (trace_name t)\<close> show ?thesis by simp
    next
      case False
      with Cons.prems have l: "length (acc @ [t]) < 12" by simp
      then have "12 - length acc = Suc (12 - length (acc @ [t]))" by simp
      with Cons.IH [OF l] \<open>is_demo_name (trace_name t)\<close> l show ?thesis by simp
    qed
  qed
qed

text \<open>
  What the function does when its prints return: the first twelve traces named
  \<open>Query:...\<close>, in the order fetched, and the empty list after an exception of the
  platform call.
\<close>

lemma get_demo_traces_returns:
  assumes "client = None" and "console fetching_text = None"
    and "fetch_traces 20 ''timestamp.desc'' = Inr data"
    and "console (found_text
           (take 12 (filter (\<lambda>t. \<exists>n. trace_name t = Some n \<and> prefix ''Query:'' n) data))) = None"
  shows "get_demo_traces console client fetch_traces =
     Inr (take 12 (filter (\<lambda>t. \<exists>n. trace_name t = Some n \<and> prefix ''Query:'' n) data))"
  using assms
  by (simp add: get_demo_traces_def collect_demo_traces_eq is_demo_name_iff)

lemma get_demo_traces_handles:
  assumes "client = None" and "console fetching_text = None"
    and "fetch_traces 20 ''timestamp.desc'' = Inl e"
  shows "get_demo_traces console client fetch_traces =
     (case console (fetch_error_text e) of Some raised \<Rightarrow> Inl raised | None \<Rightarrow> Inr [])"
  using assms by (simp add: get_demo_traces_def)

text \<open>
  Claim C3, at an input where the code departs from it. The platform call raises an
  exception whose text names a path between brackets. The handler prints the text as
  markup, the console raises \<open>MarkupError\<close> on the closing tag that matches no open tag,
  and that exception leaves \<open>get_demo_traces\<close>: no empty list is returned.
\<close>

theorem get_demo_traces_error_line_raises:
  "get_demo_traces markup_console None (fetch_raises path_fetch_error) =
     Inl (PyExn MarkupError
       (''closing tag '' @ quote @ ''[/api/public/traces]'' @ quote
         @ '' at position 43 doesn'' @ quote @ ''t match any open tag''))"
proof -
  have fetching: "markup_console fetching_text = None"
    by (simp add: console_eval fetching_text_def)
  have raised: "fetch_raises path_fetch_error 20 ''timestamp.desc'' = Inl path_fetch_error"
    by (simp add: fetch_raises_def)
  have line: "markup_console (fetch_error_text path_fetch_error) =
      Some (PyExn MarkupError
        (''closing tag '' @ quote @ ''[/api/public/traces]'' @ quote
          @ '' at position 43 doesn'' @ quote @ ''t match any open tag''))"
    by (simp add: console_eval fetch_error_text_def path_fetch_error_def)
  show ?thesis
    by (simp only: get_demo_traces_handles
        [where client = None and console = markup_console
          and fetch_traces = "fetch_raises path_fetch_error" and e = path_fetch_error,
          OF refl fetching raised] line option.case)
qed

subsection \<open>extract_trace_data\<close>

text \<open>
  The two statement-side notions together are the code's own test
  \<open>not dietary_restriction\<close> after the look-up.
\<close>

lemma observed_by_metadata:
  "observed_restriction get_observation trace =
     (case first_metadata get_observation trace of
        Some (PDict d) \<Rightarrow> dict_get d ''dietary_restriction'' (PStr [])
      | _ \<Rightarrow> PStr [])"
proof (cases "trace_observations trace")
  case None
  then show ?thesis by (simp add: observed_restriction_def first_metadata_def)
next
  case (Some observations)
  show ?thesis
  proof (cases observations)
    case Nil
    with Some show ?thesis by (simp add: observed_restriction_def first_metadata_def)
  next
    case (Cons obs_id rest)
    show ?thesis
    proof (cases "obs_id = [] \<or> (\<exists>e. get_observation obs_id = Inl e)")
      case True
      with Some Cons show ?thesis
        by (auto simp: observed_restriction_def first_metadata_def)
    next
      case False
      then obtain observation where fetched: "get_observation obs_id = Inr observation"
        and "obs_id \<noteq> []"
        by (cases "get_observation obs_id") auto
      show ?thesis
      proof (cases "obs_metadata observation")
        case None
        with Some Cons fetched \<open>obs_id \<noteq> []\<close> show ?thesis
          by (simp add: observed_restriction_def first_metadata_def)
      next
        case (Some metadata)
        with \<open>trace_observations trace = Some observations\<close> Cons fetched \<open>obs_id \<noteq> []\<close>
        show ?thesis
          by (cases metadata)
            (auto simp: observed_restriction_def first_metadata_def py_get_def dict_get_def)
      qed
    qed
  qed
qed

lemma observed_no_source:
  "no_metadata_source get_observation trace \<Longrightarrow>
   observed_restriction get_observation trace = PStr []"
  by (auto simp: observed_by_metadata no_metadata_source_def dict_get_def
      split: option.splits pyval.splits)

lemma observed_holds:
  "metadata_holds get_observation trace v \<Longrightarrow> observed_restriction get_observation trace = v"
  by (auto simp: observed_by_metadata metadata_holds_def dict_get_def
      split: option.splits pyval.splits)

lemma observed_cases:
  "no_metadata_source get_observation trace \<or>
   metadata_holds get_observation trace (observed_restriction get_observation trace)"
  by (auto simp: observed_by_metadata no_metadata_source_def metadata_holds_def dict_get_def
      split: option.splits pyval.splits)

lemma observed_unset_iff:
  "\<not> truthy (observed_restriction get_observation trace) \<longleftrightarrow>
   no_metadata_source get_observation trace \<or>
   (\<exists>v. metadata_holds get_observation trace v \<and> \<not> truthy v)"
  using observed_cases [of get_observation trace]
  by (auto dest: observed_no_source observed_holds)

text \<open>The \<open>if\<close>/\<open>elif\<close> chain finds the first keyword of the specification's list.\<close>

lemma infer_restriction_spec:
  "infer_restriction (map lower_char q) v =
     (if spec_restriction q = [] then v else PStr (spec_restriction q))"
  by (simp add: infer_restriction_def spec_restriction_def spec_keywords_def)








lemma extract_trace_data_unset:
  assumes "\<not> truthy (observed_restriction get_observation trace)"
    and "extract_query trace = Inr (PStr q)" and "q \<noteq> []"
  shows "extract_trace_data console get_observation trace =
     Inr (Some \<lparr>item_query = PStr q,
                item_dietary_restriction =
                  (if spec_restriction q = [] then observed_restriction get_observation trace
                   else PStr (spec_restriction q)),
                item_response = extract_response trace, item_trace_id = trace_id trace\<rparr>)"
  using assms
  by (simp add: extract_trace_data_def Let_def py_lower_def infer_restriction_spec)

text \<open>
  Claim C4, as amended. Take a trace whose extracted query is a non-empty string. If it
  has no metadata source, \<open>extract_trace_data\<close> returns a record whose dietary
  restriction is that of the first keyword, in the order gluten, sugar-free,
  vegetarian, paleo, that occurs as a substring of the lowercased query, and the empty
  string when none occurs. If the metadata holds a false value for the key (\<open>None\<close>,
  0, \<open>False\<close>, an empty string, list or dictionary), the restriction is found in the
  same way when a keyword occurs, and is that false value, left as it is, when none
  occurs.
\<close>

theorem extract_restriction_heuristic:
  assumes "extract_query trace = Inr (PStr q)" and "q \<noteq> []"
  shows "(no_metadata_source get_observation trace \<longrightarrow>
      extract_trace_data console get_observation trace =
        Inr (Some \<lparr>item_query = PStr q, item_dietary_restriction = PStr (spec_restriction q),
                   item_response = extract_response trace, item_trace_id = trace_id trace\<rparr>))
    \<and> (metadata_holds get_observation trace v \<and> \<not> truthy v \<longrightarrow>
      extract_trace_data console get_observation trace =
        Inr (Some \<lparr>item_query = PStr q,
                   item_dietary_restriction =
                     (if spec_restriction q = [] then v else PStr (spec_restriction q)),
                   item_response = extract_response trace, item_trace_id = trace_id trace\<rparr>))"
proof (intro conjI impI)
  assume "no_metadata_source get_observation trace"
  then have unset: "observed_restriction get_observation trace = PStr []"
    by (rule observed_no_source)
  then have "\<not> truthy (observed_restriction get_observation trace)" by simp
  from extract_trace_data_unset [OF this assms] unset
  show "extract_trace_data console get_observation trace =
        Inr (Some \<lparr>item_query = PStr q, item_dietary_restriction = PStr (spec_restriction q),
                   item_response = extract_response trace, item_trace_id = trace_id trace\<rparr>)"
    by simp
next
  assume "metadata_holds get_observation trace v \<and> \<not> truthy v"
  then have held: "observed_restriction get_observation trace = v" and "\<not> truthy v"
    by (simp_all add: observed_holds)
  then have "\<not> truthy (observed_restriction get_observation trace)" by simp
  from extract_trace_data_unset [OF this assms] held
  show "extract_trace_data console get_observation trace =
        Inr (Some \<lparr>item_query = PStr q,
                   item_dietary_restriction =
                     (if spec_restriction q = [] then v else PStr (spec_restriction q)),
                   item_response = extract_response trace, item_trace_id = trace_id trace\<rparr>)"
    by simp
qed

text \<open>
  Witness for C4: the query "I need a gluten-free dinner", on a trace whose observation
  cannot be fetched, gives "gluten-free"; the query "A Quick Dinner", on a trace without
  observations, gives the empty string; the query "A Paleo Bowl", on a trace whose
  metadata holds \<open>None\<close>, gives "paleo".
\<close>

theorem extract_restriction_heuristic_witness:
  "extract_trace_data markup_console no_observation gluten_trace =
     Inr (Some \<lparr>item_query = PStr ''I need a gluten-free dinner'',
                item_dietary_restriction = PStr ''gluten-free'',
                item_response = PStr ''Try a quinoa bowl'', item_trace_id = ''trace-1''\<rparr>)
   \<and> extract_trace_data markup_console no_observation plain_trace =
     Inr (Some \<lparr>item_query = PStr ''A Quick Dinner'', item_dietary_restriction = PStr [],
                item_response = PStr [], item_trace_id = ''trace-2''\<rparr>)
   \<and> extract_trace_data markup_console null_restriction_observation
       (observed_trace ''A Paleo Bowl'') =
     Inr (Some \<lparr>item_query = PStr ''A Paleo Bowl'', item_dietary_restriction = PStr ''paleo'',
                item_response = PStr ''Try a stir-fry'', item_trace_id = ''trace-5''\<rparr>)"
proof -
  have m1: "no_metadata_source no_observation gluten_trace"
    by (simp add: no_metadata_source_def first_metadata_def no_observation_def gluten_trace_def)
  have q1: "extract_query gluten_trace = Inr (PStr ''I need a gluten-free dinner'')"
    by (simp add: extract_query_def gluten_trace_def user_says_def py_iter_def py_get_def
        dict_get_def)
  have l1: "map lower_char ''I need a gluten-free dinner'' = ''i need a gluten-free dinner''"
    by (simp add: lower_char_def)
  have s1: "spec_restriction ''I need a gluten-free dinner'' = ''gluten-free''"
    unfolding spec_restriction_def l1 by (simp add: spec_keywords_def sublist_code)
  have r1: "extract_response gluten_trace = PStr ''Try a quinoa bowl''"
    by (simp add: extract_response_def gluten_trace_def dict_get_def)
  have m2: "no_metadata_source no_observation plain_trace"
    by (simp add: no_metadata_source_def first_metadata_def plain_trace_def)
  have q2: "extract_query plain_trace = Inr (PStr ''A Quick Dinner'')"
    by (simp add: extract_query_def plain_trace_def user_says_def py_iter_def py_get_def
        dict_get_def)
  have l2: "map lower_char ''A Quick Dinner'' = ''a quick dinner''"
    by (simp add: lower_char_def)
  have s2: "spec_restriction ''A Quick Dinner'' = []"
    unfolding spec_restriction_def l2 by (simp add: spec_keywords_def sublist_code)
  have r2: "extract_response plain_trace = PStr []"
    by (simp add: extract_response_def plain_trace_def)
  have m3: "metadata_holds null_restriction_observation (observed_trace ''A Paleo Bowl'') PNone
      \<and> \<not> truthy PNone"
    by (simp add: metadata_holds_def first_metadata_def null_restriction_observation_def
        observed_trace_def)
  have q3: "extract_query (observed_trace ''A Paleo Bowl'') = Inr (PStr ''A Paleo Bowl'')"
    by (simp add: extract_query_def observed_trace_def user_says_def py_iter_def py_get_def
        dict_get_def)
  have l3: "map lower_char ''A Paleo Bowl'' = ''a paleo bowl''"
    by (simp add: lower_char_def)
  have s3: "spec_restriction ''A Paleo Bowl'' = ''paleo''"
    unfolding spec_restriction_def l3 by (simp add: spec_keywords_def sublist_code)
  have r3: "extract_response (observed_trace ''A Paleo Bowl'') = PStr ''Try a stir-fry''"
    by (simp add: extract_response_def observed_trace_def dict_get_def)
  from extract_restriction_heuristic
    [where trace = gluten_trace and get_observation = no_observation
      and console = markup_console, OF q1] m1 s1 r1
  have "extract_trace_data markup_console no_observation gluten_trace =
     Inr (Some \<lparr>item_query = PStr ''I need a gluten-free dinner'',
                item_dietary_restriction = PStr ''gluten-free'',
                item_response = PStr ''Try a quinoa bowl'', item_trace_id = ''trace-1''\<rparr>)"
    by (simp add: gluten_trace_def)
  moreover
  from extract_restriction_heuristic
    [where trace = plain_trace and get_observation = no_observation
      and console = markup_console, OF q2] m2 s2 r2
  have "extract_trace_data markup_console no_observation plain_trace =
     Inr (Some \<lparr>item_query = PStr ''A Quick Dinner'', item_dietary_restriction = PStr [],
                item_response = PStr [], item_trace_id = ''trace-2''\<rparr>)"
    by (simp add: plain_trace_def)
  moreover
  from extract_restriction_heuristic
    [where trace = "observed_trace ''A Paleo Bowl''"
      and get_observation = null_restriction_observation
      and console = markup_console and v = PNone, OF q3] m3 s3 r3
  have "extract_trace_data markup_console null_restriction_observation
       (observed_trace ''A Paleo Bowl'') =
     Inr (Some \<lparr>item_query = PStr ''A Paleo Bowl'', item_dietary_restriction = PStr ''paleo'',
                item_response = PStr ''Try a stir-fry'', item_trace_id = ''trace-5''\<rparr>)"
    by (simp add: observed_trace_def)
  ultimately show ?thesis by (intro conjI)
qed

text \<open>
  Counterexample for C4 as stated: the first observation's metadata holds \<open>None\<close> as
  dietary restriction, which the code takes as unset, and the query "A Quick Dinner" has
  no keyword. The restriction of the record is \<open>None\<close>, not the empty string.
\<close>

theorem extract_trace_data_null_restriction:
  "metadata_holds null_restriction_observation (observed_trace ''A Quick Dinner'') PNone
   \<and> extract_trace_data markup_console null_restriction_observation
       (observed_trace ''A Quick Dinner'') =
     Inr (Some \<lparr>item_query = PStr ''A Quick Dinner'', item_dietary_restriction = PNone,
                item_response = PStr ''Try a stir-fry'', item_trace_id = ''trace-5''\<rparr>)"
proof -
  have m: "metadata_holds null_restriction_observation (observed_trace ''A Quick Dinner'') PNone"
    by (simp add: metadata_holds_def first_metadata_def null_restriction_observation_def
        observed_trace_def)
  then have o: "observed_restriction null_restriction_observation
      (observed_trace ''A Quick Dinner'') = PNone"
    by (rule observed_holds)
  then have u: "\<not> truthy (observed_restriction null_restriction_observation
      (observed_trace ''A Quick Dinner''))"
    by simp
  have q: "extract_query (observed_trace ''A Quick Dinner'') = Inr (PStr ''A Quick Dinner'')"
    by (simp add: extract_query_def observed_trace_def user_says_def py_iter_def py_get_def
        dict_get_def)
  have l: "map lower_char ''A Quick Dinner'' = ''a quick dinner''"
    by (simp add: lower_char_def)
  have s: "spec_restriction ''A Quick Dinner'' = []"
    unfolding spec_restriction_def l by (simp add: spec_keywords_def sublist_code)
  have r: "extract_response (observed_trace ''A Quick Dinner'') = PStr ''Try a stir-fry''"
    by (simp add: extract_response_def observed_trace_def dict_get_def)
  from extract_trace_data_unset [OF u q, of markup_console] o s r m show ?thesis
    by (simp add: observed_trace_def)
qed




subsection \<open>create_langfuse_dataset\<close>


































end
